theory Spec2Isabelle
  imports Main "HOL-Library.Multiset" "HOL-Library.AList"
begin

section \<open>The Pub/Sub subscriber of prow: data model\<close>

text \<open>
  The development follows \<^verbatim>\<open>prow/pubsub/subscriber/subscriber.go\<close>. An error is
  the message it carries. The contents of a Go \<^verbatim>\<open>map[string]string\<close> are an
  association list; a nil map and an empty map read alike (lookup and range are the
  only operations applied to the maps of an event), and both are the empty list.
\<close>

type_synonym error = string
type_synonym gomap = "(string \<times> string) list"

definition prowEventType :: string where
  "prowEventType = ''prow.k8s.io/pubsub.EventType''"

definition periodicProwJobEvent :: string where
  "periodicProwJobEvent = ''prow.k8s.io/pubsub.PeriodicProwJobEvent''"

definition presubmitProwJobEvent :: string where
  "presubmitProwJobEvent = ''prow.k8s.io/pubsub.PresubmitProwJobEvent''"

definition postsubmitProwJobEvent :: string where
  "postsubmitProwJobEvent = ''prow.k8s.io/pubsub.PostsubmitProwJobEvent''"

text \<open>\<^verbatim>\<open>v1.Refs\<close> and \<^verbatim>\<open>v1.Pull\<close>, with the fields the subscriber reads.\<close>

record Pull =
  Number :: int
  SHA :: string

record Refs =
  Org :: string
  Repo :: string
  BaseRef :: string
  BaseSHA :: string
  Pulls :: "Pull list"

record ProwJobEvent =
  Name :: string
  Refs :: "Refs option"
  Envs :: gomap
  Labels :: gomap
  Annotations :: gomap

text \<open>
  The pod template of a job: \<^verbatim>\<open>coreapi.PodSpec\<close>, its containers and their
  environment lists.
\<close>

record EnvVar =
  EnvName :: string
  EnvValue :: string

record Container =
  ContainerName :: string
  Env :: "EnvVar list"

record PodSpec =
  Containers :: "Container list"

record ProwJobSpec =
  Cluster :: string
  PodSpec :: "PodSpec option"

datatype ProwJobState = TriggeredState | PendingState | SuccessState | FailureState
  | AbortedState | ErrorState

record ProwJobStatus =
  State :: ProwJobState
  Description :: string

text \<open>
  A \<^verbatim>\<open>prowapi.ProwJob\<close>: its metadata (the generated name, the labels and
  the annotations), its spec and its status.
\<close>

record ObjectMeta =
  MetaName :: string
  MetaLabels :: gomap
  MetaAnnotations :: gomap

record ProwJob =
  Metadata :: ObjectMeta
  Spec :: ProwJobSpec
  Status :: ProwJobStatus

text \<open>
  Job definitions of the catalog (\<^verbatim>\<open>config.Periodic\<close>, \<^verbatim>\<open>config.Presubmit\<close>,
  \<^verbatim>\<open>config.Postsubmit\<close>). A Go map is a reference: the field \<open>JobLabels\<close> holds nil
  (\<open>None\<close>) or the address of a map object in the store of the world below. Copying a
  job definition (as \<^verbatim>\<open>for _, job := range ...\<close> does) copies the address, not
  the map.
\<close>

record Periodic =
  JobName :: string
  JobLabels :: "nat option"
  JobCluster :: string
  JobPodSpec :: "PodSpec option"

record Presubmit = Periodic +
  CouldRun :: "string \<Rightarrow> bool"

type_synonym Postsubmit = Presubmit

text \<open>The interface \<^verbatim>\<open>prowCfgClient\<close> and the in-repo configuration cache.\<close>

record Config =
  AllPeriodics :: "Periodic list"
  GetPresubmitsStatic :: "string \<Rightarrow> Presubmit list"
  GetPostsubmitsStatic :: "string \<Rightarrow> Postsubmit list"

text \<open>
  The getters handed to the cache are closures that return \<^verbatim>\<open>refs.BaseSHA\<close> and
  each \<^verbatim>\<open>pull.SHA\<close> with a nil error; they are passed as the values they return.
\<close>

record InRepoConfigCache =
  GetPresubmits :: "string \<Rightarrow> string \<Rightarrow> string list \<Rightarrow> error + Presubmit list"
  GetPostsubmits :: "string \<Rightarrow> string \<Rightarrow> error + Postsubmit list"

record Subscriber =
  ConfigAgent :: Config
  InRepoCache :: "InRepoConfigCache option"
  Create :: "ProwJob \<Rightarrow> error option"
  ShouldReport :: "ProwJob \<Rightarrow> bool"

record Message =
  Attributes :: "string \<rightharpoonup> string"
  Data :: string
  ID :: string

text \<open>
  Functions of other modules that the subscriber calls, taken as parameters:
  \<^verbatim>\<open>json.Unmarshal\<close> into a zero event, \<^verbatim>\<open>strings.TrimSpace\<close>, the verb
  \<^verbatim>\<open>%q\<close> of \<^verbatim>\<open>fmt\<close>, the spec builders and the job constructor of
  \<^verbatim>\<open>pjutil\<close> (given a spec, the labels, nil being \<open>None\<close>, and the annotations).
  Go leaves the order of a \<^verbatim>\<open>range\<close> over a map open, and two
  ranges over one map may differ: \<open>RangeOrder ex n m\<close> is the order in which the
  \<open>n\<close>-th range statement of a handling visits the entries of \<open>m\<close>.
\<close>

record Externals =
  Unmarshal :: "string \<Rightarrow> error + ProwJobEvent"
  TrimSpace :: "string \<Rightarrow> string"
  Quote :: "string \<Rightarrow> string"
  PeriodicSpec :: "Periodic \<Rightarrow> ProwJobSpec"
  PresubmitSpec :: "Presubmit \<Rightarrow> Refs \<Rightarrow> ProwJobSpec"
  PostsubmitSpec :: "Postsubmit \<Rightarrow> Refs \<Rightarrow> ProwJobSpec"
  NewProwJob :: "ProwJobSpec \<Rightarrow> gomap option \<Rightarrow> gomap \<Rightarrow> ProwJob"
  RangeOrder :: "nat \<Rightarrow> gomap \<Rightarrow> gomap"

datatype jobHandler = periodicJobHandler | presubmitJobHandler | postsubmitJobHandler

text \<open>
  The calls a handling makes, in order: to the codec, to the resolver, to the reporter
  and to the job client.
\<close>

datatype call =
    CallFromPayload string
  | CallGetProwJobSpec jobHandler ProwJobEvent
  | CallShouldReport ProwJob
  | CallReport ProwJob
  | CallCreate ProwJob

text \<open>
  What a handling can change: the two counter vectors of \<^verbatim>\<open>Metrics\<close> (the value
  of the child of each subscription), the map objects (by address, with the next free
  address), and the calls made so far.
\<close>

record World =
  MessageCounter :: "string \<Rightarrow> nat"
  ErrorCounter :: "string \<Rightarrow> nat"
  mapStore :: "nat \<Rightarrow> gomap"
  nextMap :: nat
  calls :: "call list"

section \<open>The codec and the resolvers\<close>

definition FromPayload :: "Externals \<Rightarrow> string \<Rightarrow> error + ProwJobEvent" where
  "FromPayload ex data = (case Unmarshal ex data of Inl err \<Rightarrow> Inl err | Inr pe \<Rightarrow> Inr pe)"

text \<open>
  A resolver returns the spec (a pointer, so possibly nil), the labels of the job
  definition (the reference itself) and no error, or an error.
\<close>

type_synonym resolved = "error + (ProwJobSpec option \<times> nat option)"

fun findPeriodic :: "string \<Rightarrow> Periodic list \<Rightarrow> Periodic option" where
  "findPeriodic name [] = None"
| "findPeriodic name (job # jobs) =
     (if JobName job = name then Some job else findPeriodic name jobs)"

definition periodic_getProwJobSpec ::
  "Externals \<Rightarrow> Config \<Rightarrow> InRepoConfigCache option \<Rightarrow> ProwJobEvent \<Rightarrow> resolved" where
  "periodic_getProwJobSpec ex cfg pc pe =
     (case findPeriodic (Name pe) (AllPeriodics cfg) of
        None \<Rightarrow> Inl (''failed to find associated periodic job '' @ Quote ex (Name pe))
      | Some periodicJob \<Rightarrow> Inr (Some (PeriodicSpec ex periodicJob), JobLabels periodicJob))"

text \<open>
  The matching loop of the presubmit and of the postsubmit resolver (the two loops are
  the same text over the same type): \<open>found\<close> is the job matched so far.
\<close>

fun matchJobs :: "string \<Rightarrow> string \<Rightarrow> Presubmit list \<Rightarrow> Presubmit option
    \<Rightarrow> error + Presubmit option" where
  "matchJobs branch name [] found = Inr found"
| "matchJobs branch name (job # jobs) found =
     (if \<not> CouldRun job branch then matchJobs branch name jobs found
      else if JobName job = name then
        (if found \<noteq> None then Inl (name @ '' matches multiple prow jobs'')
         else matchJobs branch name jobs (Some job))
      else matchJobs branch name jobs found)"

text \<open>
  The list a resolver matches against: the static list of the configuration, replaced
  by the list of the in-repo cache when a cache is given and its lookup succeeds (the
  error of a failed lookup is logged and dropped).
\<close>

definition presubmitCatalog :: "Config \<Rightarrow> InRepoConfigCache option \<Rightarrow> Refs \<Rightarrow> Presubmit list" where
  "presubmitCatalog cfg pc refs =
     (let orgRepo = Org refs @ ''/'' @ Repo refs;
          baseSHAGetter = BaseSHA refs;
          headSHAGetters = map SHA (Pulls refs);
          presubmits = GetPresubmitsStatic cfg orgRepo
      in case pc of
           None \<Rightarrow> presubmits
         | Some c \<Rightarrow>
             (case GetPresubmits c orgRepo baseSHAGetter headSHAGetters of
                Inl err \<Rightarrow> presubmits
              | Inr presubmitsWithInrepoconfig \<Rightarrow> presubmitsWithInrepoconfig))"

definition postsubmitCatalog :: "Config \<Rightarrow> InRepoConfigCache option \<Rightarrow> Refs \<Rightarrow> Postsubmit list" where
  "postsubmitCatalog cfg pc refs =
     (let orgRepo = Org refs @ ''/'' @ Repo refs;
          baseSHAGetter = BaseSHA refs;
          postsubmits = GetPostsubmitsStatic cfg orgRepo
      in case pc of
           None \<Rightarrow> postsubmits
         | Some c \<Rightarrow>
             (case GetPostsubmits c orgRepo baseSHAGetter of
                Inl err \<Rightarrow> postsubmits
              | Inr postsubmitsWithInrepoconfig \<Rightarrow> postsubmitsWithInrepoconfig))"

definition presubmit_getProwJobSpec ::
  "Externals \<Rightarrow> Config \<Rightarrow> InRepoConfigCache option \<Rightarrow> ProwJobEvent \<Rightarrow> resolved" where
  "presubmit_getProwJobSpec ex cfg pc pe =
     (case Refs pe of
        None \<Rightarrow> Inl ''Refs must be supplied''
      | Some refs \<Rightarrow>
          if length (Org refs) = 0 then Inl ''org must be supplied''
          else if length (Repo refs) = 0 then Inl ''repo must be supplied''
          else if length (Pulls refs) = 0 then Inl ''at least 1 Pulls is required''
          else if length (BaseSHA refs) = 0 then Inl ''baseSHA must be supplied''
          else if length (BaseRef refs) = 0 then Inl ''baseRef must be supplied''
          else
            (case matchJobs (BaseRef refs) (Name pe) (presubmitCatalog cfg pc refs) None of
               Inl err \<Rightarrow> Inl err
             | Inr None \<Rightarrow>
                 Inl (''failed to find associated presubmit job '' @ Quote ex (Name pe))
             | Inr (Some presubmitJob) \<Rightarrow>
                 Inr (Some (PresubmitSpec ex presubmitJob refs), JobLabels presubmitJob)))"

definition postsubmit_getProwJobSpec ::
  "Externals \<Rightarrow> Config \<Rightarrow> InRepoConfigCache option \<Rightarrow> ProwJobEvent \<Rightarrow> resolved" where
  "postsubmit_getProwJobSpec ex cfg pc pe =
     (case Refs pe of
        None \<Rightarrow> Inl ''refs must be supplied''
      | Some refs \<Rightarrow>
          if length (Org refs) = 0 then Inl ''org must be supplied''
          else if length (Repo refs) = 0 then Inl ''repo must be supplied''
          else if length (BaseSHA refs) = 0 then Inl ''baseSHA must be supplied''
          else if length (BaseRef refs) = 0 then Inl ''baseRef must be supplied''
          else
            (case matchJobs (BaseRef refs) (Name pe) (postsubmitCatalog cfg pc refs) None of
               Inl err \<Rightarrow> Inl err
             | Inr None \<Rightarrow>
                 Inl (''failed to find associated postsubmit job '' @ Quote ex (Name pe))
             | Inr (Some postsubmitJob) \<Rightarrow>
                 Inr (Some (PostsubmitSpec ex postsubmitJob refs), JobLabels postsubmitJob)))"

fun getProwJobSpec ::
  "jobHandler \<Rightarrow> Externals \<Rightarrow> Config \<Rightarrow> InRepoConfigCache option \<Rightarrow> ProwJobEvent \<Rightarrow> resolved" where
  "getProwJobSpec periodicJobHandler = periodic_getProwJobSpec"
| "getProwJobSpec presubmitJobHandler = presubmit_getProwJobSpec"
| "getProwJobSpec postsubmitJobHandler = postsubmit_getProwJobSpec"

definition extractFromAttribute :: "Externals \<Rightarrow> (string \<rightharpoonup> string) \<Rightarrow> string \<Rightarrow> error + string" where
  "extractFromAttribute ex attrs key =
     (case attrs key of
        None \<Rightarrow> Inl (''unable to find '' @ Quote ex key @ '' from the attributes'')
      | Some v \<Rightarrow> Inr v)"

section \<open>The dispatcher\<close>

text \<open>
  A counter vector of \<^verbatim>\<open>prometheus\<close>: \<^verbatim>\<open>With\<close> selects the child counter of
  a label value and changes no value; \<^verbatim>\<open>Inc\<close> adds one to a child.
\<close>

definition With :: "(string \<Rightarrow> nat) \<Rightarrow> string \<Rightarrow> string" where
  "With vec subscription = subscription"

definition Inc :: "(string \<Rightarrow> nat) \<Rightarrow> string \<Rightarrow> (string \<Rightarrow> nat)" where
  "Inc vec child = vec(child := vec child + 1)"

definition called :: "call \<Rightarrow> World \<Rightarrow> World" where
  "called c w = w\<lparr>calls := calls w @ [c]\<rparr>"

text \<open>
  The closure \<^verbatim>\<open>reportProwJob\<close>: it sets the status of the job, asks the reporter
  whether to report and reports if so. An error of \<^verbatim>\<open>Report\<close> is logged and
  dropped, so the result of the call is not part of the model.
\<close>

definition reportProwJob :: "Subscriber \<Rightarrow> ProwJob \<Rightarrow> ProwJobState \<Rightarrow> error option \<Rightarrow> World \<Rightarrow> World" where
  "reportProwJob s pj state err w =
     (let pj = pj\<lparr>Status := (Status pj)\<lparr>State := state\<rparr>\<rparr>;
          pj = pj\<lparr>Status := (Status pj)\<lparr>Description := ''Successfully triggered prowjob.''\<rparr>\<rparr>;
          pj = (case err of
                  None \<Rightarrow> pj
                | Some e \<Rightarrow>
                    pj\<lparr>Status := (Status pj)\<lparr>Description := ''Failed creating prowjob: '' @ e\<rparr>\<rparr>);
          w = called (CallShouldReport pj) w
      in if ShouldReport s pj then called (CallReport pj) w else w)"

definition reportProwJobFailure :: "Subscriber \<Rightarrow> ProwJob \<Rightarrow> error \<Rightarrow> World \<Rightarrow> World" where
  "reportProwJobFailure s pj err w = reportProwJob s pj ErrorState (Some err) w"

definition reportProwJobTriggered :: "Subscriber \<Rightarrow> ProwJob \<Rightarrow> World \<Rightarrow> World" where
  "reportProwJobTriggered s pj w = reportProwJob s pj TriggeredState None w"

text \<open>The loop over \<^verbatim>\<open>allowedClusters\<close>, which stops at the first hit.\<close>

fun clusterIsAllowed :: "string list \<Rightarrow> string \<Rightarrow> bool" where
  "clusterIsAllowed [] cluster = False"
| "clusterIsAllowed (allowedCluster # rest) cluster =
     (if allowedCluster = ''*'' \<or> allowedCluster = cluster then True
      else clusterIsAllowed rest cluster)"

text \<open>
  \<^verbatim>\<open>make(map[string]string)\<close> takes the next free address for a new, empty map;
  \<^verbatim>\<open>labels[k] = v\<close> updates the map object at the address \<open>labels\<close>.
\<close>

definition makeMap :: "World \<Rightarrow> nat \<times> World" where
  "makeMap w =
     (nextMap w, w\<lparr>mapStore := (mapStore w)(nextMap w := []), nextMap := Suc (nextMap w)\<rparr>)"

definition assign :: "nat \<Rightarrow> string \<times> string \<Rightarrow> World \<Rightarrow> World" where
  "assign labels kv w =
     w\<lparr>mapStore := (mapStore w)(labels := AList.update (fst kv) (snd kv) (mapStore w labels))\<rparr>"

text \<open>
  The loops over the containers of the pod template: container \<open>i\<close> gets each entry of
  the event's \<^verbatim>\<open>Envs\<close> appended, in the order of its own range over the map.
\<close>

definition appendEnv :: "string \<times> string \<Rightarrow> EnvVar list \<Rightarrow> EnvVar list" where
  "appendEnv kv env = env @ [\<lparr>EnvName = fst kv, EnvValue = snd kv\<rparr>]"

fun addEnvs :: "Externals \<Rightarrow> gomap \<Rightarrow> nat \<Rightarrow> Container list \<Rightarrow> Container list" where
  "addEnvs ex envs i [] = []"
| "addEnvs ex envs i (c # cs) =
     c\<lparr>Env := fold appendEnv (RangeOrder ex (Suc i) envs) (Env c)\<rparr>
       # addEnvs ex envs (Suc i) cs"

definition addEnvironments :: "Externals \<Rightarrow> gomap \<Rightarrow> ProwJob \<Rightarrow> ProwJob" where
  "addEnvironments ex envs prowJob =
     (case PodSpec (Spec prowJob) of
        None \<Rightarrow> prowJob
      | Some pod \<Rightarrow>
          prowJob\<lparr>Spec := (Spec prowJob)
            \<lparr>PodSpec := Some (pod\<lparr>Containers := addEnvs ex envs 0 (Containers pod)\<rparr>)\<rparr>\<rparr>)"

definition emptyProwJobSpec :: ProwJobSpec where
  "emptyProwJobSpec = \<lparr>Cluster = [], PodSpec = None\<rparr>"

definition handleProwJob ::
  "Externals \<Rightarrow> Subscriber \<Rightarrow> jobHandler \<Rightarrow> Message \<Rightarrow> string \<Rightarrow> string list \<Rightarrow> World
     \<Rightarrow> error option \<times> World" where
  "handleProwJob ex s jh msg subscription allowedClusters w =
     (let w = called (CallFromPayload (Data msg)) w in
      case FromPayload ex (Data msg) of
        Inl err \<Rightarrow> (Some err, w)
      | Inr pe \<Rightarrow>
          (let pe = pe\<lparr>Name := TrimSpace ex (Name pe)\<rparr>;
               w = called (CallGetProwJobSpec jh pe) w
           in case getProwJobSpec jh ex (ConfigAgent s) (InRepoCache s) pe of
                Inl err \<Rightarrow>
                  (Some err,
                   reportProwJobFailure s (NewProwJob ex emptyProwJobSpec None (Annotations pe)) err w)
              | Inr (None, labels) \<Rightarrow> (Some ''failed getting prowjob spec'', w)
              | Inr (Some prowJobSpec, labels) \<Rightarrow>
                  if \<not> clusterIsAllowed allowedClusters (Cluster prowJobSpec) then
                    (let err = ''cluster '' @ Cluster prowJobSpec
                           @ '' is not allowed. Can be fixed by defining this cluster under pubsub_triggers -> allowed_clusters''
                     in (Some err,
                         reportProwJobFailure s (NewProwJob ex prowJobSpec None (Annotations pe)) err w))
                  else
                    (let (labels, w) = (case labels of None \<Rightarrow> makeMap w | Some a \<Rightarrow> (a, w));
                         w = fold (assign labels) (RangeOrder ex 0 (Labels pe)) w;
                         prowJob = NewProwJob ex prowJobSpec (Some (mapStore w labels)) (Annotations pe);
                         prowJob = addEnvironments ex (Envs pe) prowJob;
                         w = called (CallCreate prowJob) w
                     in case Create s prowJob of
                          Some err \<Rightarrow> (Some err, reportProwJobFailure s prowJob err w)
                        | None \<Rightarrow> (None, reportProwJobTriggered s prowJob w))))"

text \<open>The \<^verbatim>\<open>switch\<close> on the event type; \<open>None\<close> is its default branch.\<close>

definition selectHandler :: "string \<Rightarrow> jobHandler option" where
  "selectHandler eType =
     (if eType = periodicProwJobEvent then Some periodicJobHandler
      else if eType = presubmitProwJobEvent then Some presubmitJobHandler
      else if eType = postsubmitProwJobEvent then Some postsubmitJobHandler
      else None)"

definition handleMessage ::
  "Externals \<Rightarrow> Subscriber \<Rightarrow> Message \<Rightarrow> string \<Rightarrow> string list \<Rightarrow> World
     \<Rightarrow> error option \<times> World" where
  "handleMessage ex s msg subscription allowedClusters w =
     (let w = w\<lparr>MessageCounter := Inc (MessageCounter w) (With (MessageCounter w) subscription)\<rparr>
      in case extractFromAttribute ex (Attributes msg) prowEventType of
           Inl err \<Rightarrow> (let child = With (ErrorCounter w) subscription in (Some err, w))
         | Inr eType \<Rightarrow>
             (case selectHandler eType of
                None \<Rightarrow>
                  (let child = With (ErrorCounter w) subscription
                   in (Some (''unsupported event type: '' @ eType), w))
              | Some jh \<Rightarrow>
                  (case handleProwJob ex s jh msg subscription allowedClusters w of
                     (Some err, w) \<Rightarrow>
                       (let child = With (ErrorCounter w) subscription in (Some err, w))
                   | (None, w) \<Rightarrow> (None, w))))"

text \<open>The jobs handed to the job client so far.\<close>

fun created :: "call list \<Rightarrow> ProwJob list" where
  "created [] = []"
| "created (CallCreate pj # cs) = pj # created cs"
| "created (c # cs) = created cs"

section \<open>Notions used to state the properties\<close>

text \<open>
  The jobs counted as submitted are those of \<open>created\<close>. A job as the closure
  \<^verbatim>\<open>reportProwJobFailure\<close> hands it to the reporter:
\<close>

definition failed :: "ProwJob \<Rightarrow> error \<Rightarrow> ProwJob" where
  "failed pj err =
     pj\<lparr>Status := \<lparr>State = ErrorState, Description = ''Failed creating prowjob: '' @ err\<rparr>\<rparr>"

text \<open>The messages of the dispatcher's own errors.\<close>

definition clusterError :: "string \<Rightarrow> error" where
  "clusterError cluster = ''cluster '' @ cluster
     @ '' is not allowed. Can be fixed by defining this cluster under pubsub_triggers -> allowed_clusters''"

definition missingAttributeError :: "Externals \<Rightarrow> error" where
  "missingAttributeError ex = ''unable to find '' @ Quote ex prowEventType @ '' from the attributes''"

text \<open>The world after the received-message counter of a subscription went up by one.\<close>

definition received :: "string \<Rightarrow> World \<Rightarrow> World" where
  "received subscription w =
     w\<lparr>MessageCounter := (MessageCounter w)(subscription := MessageCounter w subscription + 1)\<rparr>"

text \<open>
  One assignment \<^verbatim>\<open>labels[k] = v\<close> on the contents of a map, and the base labels a
  resolver returned: the contents of the map it refers to, nothing for nil.
\<close>

definition put :: "string \<times> string \<Rightarrow> gomap \<Rightarrow> gomap" where
  "put kv m = AList.update (fst kv) (snd kv) m"

definition baseLabels :: "nat option \<Rightarrow> World \<Rightarrow> gomap" where
  "baseLabels lbl w = (case lbl of None \<Rightarrow> [] | Some a \<Rightarrow> mapStore w a)"

text \<open>
  A range over a map visits every entry once, in some order: each \<open>RangeOrder ex n m\<close>
  is a permutation of the entries of \<open>m\<close>. The environment variable built from an
  entry of \<^verbatim>\<open>Envs\<close>:
\<close>

definition rangeOrderOK :: "Externals \<Rightarrow> bool" where
  "rangeOrderOK ex \<longleftrightarrow> (\<forall>n m. mset (RangeOrder ex n m) = mset m)"

definition envVar :: "string \<times> string \<Rightarrow> EnvVar" where
  "envVar kv = \<lparr>EnvName = fst kv, EnvValue = snd kv\<rparr>"

text \<open>
  The required fields of the refs of a presubmit event in the order refs, org, repo,
  pulls, baseSHA, baseRef; the first one that is missing; the validation error that
  names a field.
\<close>

datatype field = FieldRefs | FieldOrg | FieldRepo | FieldPulls | FieldBaseSHA | FieldBaseRef

fun fieldName :: "field \<Rightarrow> string" where
  "fieldName FieldRefs = ''Refs''"
| "fieldName FieldOrg = ''org''"
| "fieldName FieldRepo = ''repo''"
| "fieldName FieldPulls = ''Pulls''"
| "fieldName FieldBaseSHA = ''baseSHA''"
| "fieldName FieldBaseRef = ''baseRef''"

definition validationError :: "field \<Rightarrow> error" where
  "validationError f =
     (if f = FieldPulls then ''at least 1 '' @ fieldName f @ '' is required''
      else fieldName f @ '' must be supplied'')"

definition firstUnmet :: "Refs option \<Rightarrow> field option" where
  "firstUnmet refs =
     (case refs of
        None \<Rightarrow> Some FieldRefs
      | Some r \<Rightarrow>
          if Org r = [] then Some FieldOrg
          else if Repo r = [] then Some FieldRepo
          else if Pulls r = [] then Some FieldPulls
          else if BaseSHA r = [] then Some FieldBaseSHA
          else if BaseRef r = [] then Some FieldBaseRef
          else None)"

text \<open>
  Refs that pass the checks of a resolver (a postsubmit needs no pull), the list the
  resolver of a class matches against, its entries that match by branch and by name,
  and the error for no match.
\<close>

definition requiredRefs :: "jobHandler \<Rightarrow> Refs \<Rightarrow> bool" where
  "requiredRefs jh refs \<longleftrightarrow>
     Org refs \<noteq> [] \<and> Repo refs \<noteq> [] \<and> (jh = presubmitJobHandler \<and> Pulls refs \<noteq> [] \<or> jh = postsubmitJobHandler)
     \<and> BaseSHA refs \<noteq> [] \<and> BaseRef refs \<noteq> []"

definition catalogOf :: "jobHandler \<Rightarrow> Config \<Rightarrow> InRepoConfigCache option \<Rightarrow> Refs \<Rightarrow> Presubmit list" where
  "catalogOf jh cfg pc refs =
     (if jh = postsubmitJobHandler then postsubmitCatalog cfg pc refs else presubmitCatalog cfg pc refs)"

definition matching :: "string \<Rightarrow> string \<Rightarrow> Presubmit list \<Rightarrow> Presubmit list" where
  "matching branch name jobs = filter (\<lambda>job. CouldRun job branch \<and> JobName job = name) jobs"

definition notFoundError :: "Externals \<Rightarrow> jobHandler \<Rightarrow> string \<Rightarrow> error" where
  "notFoundError ex jh name =
     ''failed to find associated ''
       @ (if jh = postsubmitJobHandler then ''postsubmit'' else ''presubmit'')
       @ '' job '' @ Quote ex name"

section \<open>Test doubles and scenarios\<close>

text \<open>
  Stand-ins for the parameters, used to run the handler on concrete messages: a decoder
  that looks the payload up in a table, a trimmer of blanks, a quoting function, spec
  builders that copy cluster and pod template, a constructor that keeps its arguments,
  a range order that alternates between the stored order and its reverse, a job client
  that accepts every job and a reporter that reports every job.
\<close>

definition fakeQuote :: "string \<Rightarrow> string" where
  "fakeQuote s = CHR 0x22 # s @ [CHR 0x22]"

definition fakeTrimSpace :: "string \<Rightarrow> string" where
  "fakeTrimSpace s =
     rev (dropWhile (\<lambda>c. c = CHR '' '') (rev (dropWhile (\<lambda>c. c = CHR '' '') s)))"

definition fakeUnmarshal :: "(string \<times> ProwJobEvent) list \<Rightarrow> string \<Rightarrow> error + ProwJobEvent" where
  "fakeUnmarshal payloads data =
     (case map_of payloads data of
        None \<Rightarrow> Inl ''unexpected end of JSON input''
      | Some pe \<Rightarrow> Inr pe)"

definition fakeSpec :: "'a Periodic_scheme \<Rightarrow> ProwJobSpec" where
  "fakeSpec job = \<lparr>Cluster = JobCluster job, PodSpec = JobPodSpec job\<rparr>"

definition fakeNewProwJob :: "ProwJobSpec \<Rightarrow> gomap option \<Rightarrow> gomap \<Rightarrow> ProwJob" where
  "fakeNewProwJob spec labels annotations =
     \<lparr>Metadata = \<lparr>MetaName = ''pj'', MetaLabels = (case labels of None \<Rightarrow> [] | Some l \<Rightarrow> l),
                   MetaAnnotations = annotations\<rparr>,
      Spec = spec,
      Status = \<lparr>State = TriggeredState, Description = []\<rparr>\<rparr>"

definition fakeRangeOrder :: "nat \<Rightarrow> gomap \<Rightarrow> gomap" where
  "fakeRangeOrder n m = (if even n then m else rev m)"

definition fakeExternals :: "(string \<times> ProwJobEvent) list \<Rightarrow> Externals" where
  "fakeExternals payloads =
     \<lparr>Unmarshal = fakeUnmarshal payloads, TrimSpace = fakeTrimSpace, Quote = fakeQuote,
      PeriodicSpec = fakeSpec, PresubmitSpec = (\<lambda>job refs. fakeSpec job),
      PostsubmitSpec = (\<lambda>job refs. fakeSpec job), NewProwJob = fakeNewProwJob,
      RangeOrder = fakeRangeOrder\<rparr>"

definition fakeSubscriber :: "Config \<Rightarrow> InRepoConfigCache option \<Rightarrow> Subscriber" where
  "fakeSubscriber cfg pc =
     \<lparr>ConfigAgent = cfg, InRepoCache = pc, Create = (\<lambda>pj. None), ShouldReport = (\<lambda>pj. True)\<rparr>"

definition fakeCache :: "(error + Presubmit list) \<Rightarrow> InRepoConfigCache" where
  "fakeCache result = \<lparr>GetPresubmits = (\<lambda>orgRepo baseSHA headSHAs. result),
                        GetPostsubmits = (\<lambda>orgRepo baseSHA. result)\<rparr>"

definition emptyConfig :: Config where
  "emptyConfig =
     \<lparr>AllPeriodics = [], GetPresubmitsStatic = (\<lambda>r. []), GetPostsubmitsStatic = (\<lambda>r. [])\<rparr>"

definition world0 :: World where
  "world0 = \<lparr>MessageCounter = (\<lambda>s. 0), ErrorCounter = (\<lambda>s. 0), mapStore = (\<lambda>a. []),
              nextMap = 0, calls = []\<rparr>"

text \<open>
  A periodic job \<^verbatim>\<open>nightly-build\<close> on cluster \<^verbatim>\<open>build\<close> with two containers, whose
  labels are the map object at address 0 (\<^verbatim>\<open>team: ci\<close>), and an event for it that
  brings two labels, two environment variables and an annotation.
\<close>

definition nightlyJob :: Periodic where
  "nightlyJob = \<lparr>JobName = ''nightly-build'', JobLabels = Some 0, JobCluster = ''build'',
     JobPodSpec = Some \<lparr>Containers =
       [\<lparr>ContainerName = ''test'', Env = [\<lparr>EnvName = ''FOO'', EnvValue = ''0''\<rparr>]\<rparr>,
        \<lparr>ContainerName = ''sidecar'', Env = []\<rparr>]\<rparr>\<rparr>"

definition nightlyConfig :: Config where
  "nightlyConfig = emptyConfig\<lparr>AllPeriodics := [nightlyJob]\<rparr>"

definition nightlyEvent :: ProwJobEvent where
  "nightlyEvent = \<lparr>Name = '' nightly-build '', Refs = None, Envs = [(''FOO'', ''1''), (''BAR'', ''2'')],
     Labels = [(''team'', ''infra''), (''tier'', ''gold'')], Annotations = [(''note'', ''by-hand'')]\<rparr>"

definition nightlyMessage :: Message where
  "nightlyMessage = \<lparr>Attributes = [prowEventType \<mapsto> periodicProwJobEvent], Data = ''nightly'', ID = ''7''\<rparr>"

definition nightlyWorld :: World where
  "nightlyWorld = world0\<lparr>mapStore := (mapStore world0)(0 := [(''team'', ''ci'')]), nextMap := 1\<rparr>"

text \<open>
  A presubmit event for \<^verbatim>\<open>unit-tests\<close> on \<^verbatim>\<open>k8s/api\<close>, branch \<^verbatim>\<open>main\<close>, with one
  pull; presubmit jobs of that name that run on \<^verbatim>\<open>main\<close>; a configuration that lists
  given presubmits (or postsubmits) for \<^verbatim>\<open>k8s/api\<close>; and an event whose refs have no pull, no base
  SHA and no base ref.
\<close>

definition unitTestsRefs :: Refs where
  "unitTestsRefs = \<lparr>Org = ''k8s'', Repo = ''api'', BaseRef = ''main'', BaseSHA = ''abc'',
                  Pulls = [\<lparr>Number = 1, SHA = ''def''\<rparr>]\<rparr>"

definition unitTestsEvent :: ProwJobEvent where
  "unitTestsEvent = \<lparr>Name = ''unit-tests'', Refs = Some unitTestsRefs,
     Envs = [], Labels = [(''team'', ''api'')], Annotations = []\<rparr>"

definition unitTestsJob :: "string \<Rightarrow> Presubmit" where
  "unitTestsJob cluster = \<lparr>JobName = ''unit-tests'', JobLabels = None, JobCluster = cluster,
     JobPodSpec = None, CouldRun = (\<lambda>branch. branch = ''main'')\<rparr>"

definition unitTestsMessage :: Message where
  "unitTestsMessage = \<lparr>Attributes = [prowEventType \<mapsto> presubmitProwJobEvent], Data = ''unit-tests'', ID = ''9''\<rparr>"

definition presubmitConfig :: "Presubmit list \<Rightarrow> Config" where
  "presubmitConfig jobs = emptyConfig\<lparr>GetPresubmitsStatic := (\<lambda>orgRepo. if orgRepo = ''k8s/api'' then jobs else [])\<rparr>"

definition postsubmitConfig :: "Postsubmit list \<Rightarrow> Config" where
  "postsubmitConfig jobs =
     emptyConfig\<lparr>GetPostsubmitsStatic := (\<lambda>orgRepo. if orgRepo = ''k8s/api'' then jobs else [])\<rparr>"

definition badRefsEvent :: ProwJobEvent where
  "badRefsEvent = \<lparr>Name = ''unit-tests'',
     Refs = Some \<lparr>Org = ''k8s'', Repo = ''api'', BaseRef = [], BaseSHA = [], Pulls = []\<rparr>,
     Envs = [], Labels = [], Annotations = []\<rparr>"

definition badRefsMessage :: Message where
  "badRefsMessage = \<lparr>Attributes = [prowEventType \<mapsto> presubmitProwJobEvent], Data = ''bad-refs'', ID = ''8''\<rparr>"






section \<open>Calls and paths of the handler\<close>

lemma created_append: "created (xs @ ys) = created xs @ created ys"
  by (induction xs rule: created.induct) simp_all

lemma calls_called: "calls (called c w) = calls w @ [c]"
  by (simp add: called_def)

lemma called_others:
  "MessageCounter (called c w) = MessageCounter w"
  "ErrorCounter (called c w) = ErrorCounter w"
  "mapStore (called c w) = mapStore w"
  "nextMap (called c w) = nextMap w"
  by (simp_all add: called_def)

lemma status_update:
  "(r::ProwJobStatus)\<lparr>State := a, Description := b\<rparr> = \<lparr>State = a, Description = b\<rparr>"
  by (cases r) simp

lemma calls_reportProwJobFailure:
  "calls (reportProwJobFailure s pj err w) =
     calls w @ CallShouldReport (failed pj err)
       # (if ShouldReport s (failed pj err) then [CallReport (failed pj err)] else [])"
  by (simp add: reportProwJobFailure_def reportProwJob_def called_def Let_def status_update
        failed_def)

lemma created_reportProwJob: "created (calls (reportProwJob s pj st err w)) = created (calls w)"
  by (cases err) (simp_all add: reportProwJob_def called_def Let_def created_append)

lemma others_reportProwJob:
  "MessageCounter (reportProwJob s pj st err w) = MessageCounter w"
  "ErrorCounter (reportProwJob s pj st err w) = ErrorCounter w"
  "mapStore (reportProwJob s pj st err w) = mapStore w"
  "nextMap (reportProwJob s pj st err w) = nextMap w"
  by (simp_all add: reportProwJob_def called_def Let_def split: option.splits)

lemma handleProwJob_decode_error:
  assumes "FromPayload ex (Data msg) = Inl err"
  shows "handleProwJob ex s jh msg sub allowed w = (Some err, called (CallFromPayload (Data msg)) w)"
  using assms by (simp add: handleProwJob_def Let_def)

lemma handleProwJob_resolve_error:
  assumes "FromPayload ex (Data msg) = Inr pe"
    and "getProwJobSpec jh ex (ConfigAgent s) (InRepoCache s) (pe\<lparr>Name := TrimSpace ex (Name pe)\<rparr>)
         = Inl err"
  shows "handleProwJob ex s jh msg sub allowed w =
    (Some err,
     reportProwJobFailure s (NewProwJob ex emptyProwJobSpec None (Annotations pe)) err
       (called (CallGetProwJobSpec jh (pe\<lparr>Name := TrimSpace ex (Name pe)\<rparr>))
         (called (CallFromPayload (Data msg)) w)))"
  using assms by (simp add: handleProwJob_def Let_def)

lemma created_resolve_error:
  assumes "FromPayload ex (Data msg) = Inr pe"
    and "getProwJobSpec jh ex (ConfigAgent s) (InRepoCache s) (pe\<lparr>Name := TrimSpace ex (Name pe)\<rparr>)
         = Inl err"
  shows "fst (handleProwJob ex s jh msg sub allowed w) = Some err"
    and "created (calls (snd (handleProwJob ex s jh msg sub allowed w))) = created (calls w)"
  by (simp_all add: handleProwJob_resolve_error [OF assms] reportProwJobFailure_def
        created_reportProwJob calls_called created_append)

lemma handleProwJob_cluster_denied:
  assumes "FromPayload ex (Data msg) = Inr pe"
    and "getProwJobSpec jh ex (ConfigAgent s) (InRepoCache s) (pe\<lparr>Name := TrimSpace ex (Name pe)\<rparr>)
         = Inr (Some spec, lbl)"
    and "\<not> clusterIsAllowed allowed (Cluster spec)"
  shows "handleProwJob ex s jh msg sub allowed w =
    (Some (clusterError (Cluster spec)),
     reportProwJobFailure s (NewProwJob ex spec None (Annotations pe)) (clusterError (Cluster spec))
       (called (CallGetProwJobSpec jh (pe\<lparr>Name := TrimSpace ex (Name pe)\<rparr>))
         (called (CallFromPayload (Data msg)) w)))"
  using assms by (simp add: handleProwJob_def clusterError_def Let_def)

lemma clusterIsAllowed_iff:
  "clusterIsAllowed allowed cluster \<longleftrightarrow> ''*'' \<in> set allowed \<or> cluster \<in> set allowed"
  by (induction allowed) auto

lemma fold_assign_calls: "calls (fold (assign a) kvs w) = calls w"
  by (induction kvs arbitrary: w) (simp_all add: assign_def)

lemma fold_assign_counters:
  "MessageCounter (fold (assign a) kvs w) = MessageCounter w"
  "ErrorCounter (fold (assign a) kvs w) = ErrorCounter w"
  by (induction kvs arbitrary: w) (simp_all add: assign_def)

lemma fold_assign_store:
  "mapStore (fold (assign a) kvs w) = (mapStore w)(a := fold put kvs (mapStore w a))"
  by (induction kvs arbitrary: w) (simp_all add: assign_def put_def)

lemma handleProwJob_accepted:
  assumes "FromPayload ex (Data msg) = Inr pe"
    and "getProwJobSpec jh ex (ConfigAgent s) (InRepoCache s) (pe\<lparr>Name := TrimSpace ex (Name pe)\<rparr>)
         = Inr (Some spec, lbl)"
    and "clusterIsAllowed allowed (Cluster spec)"
  shows "created (calls (snd (handleProwJob ex s jh msg sub allowed w))) =
    created (calls w) @
      [addEnvironments ex (Envs pe)
         (NewProwJob ex spec (Some (fold put (RangeOrder ex 0 (Labels pe)) (baseLabels lbl w)))
            (Annotations pe))]"
  using assms
  by (cases lbl)
     (simp_all add: handleProwJob_def Let_def makeMap_def baseLabels_def fold_assign_store
        fold_assign_calls reportProwJobFailure_def reportProwJobTriggered_def
        created_reportProwJob calls_called called_others created_append split: option.splits)

lemma handleProwJob_accepted_store:
  assumes "FromPayload ex (Data msg) = Inr pe"
    and "getProwJobSpec jh ex (ConfigAgent s) (InRepoCache s) (pe\<lparr>Name := TrimSpace ex (Name pe)\<rparr>)
         = Inr (Some spec, Some a)"
    and "clusterIsAllowed allowed (Cluster spec)"
  shows "mapStore (snd (handleProwJob ex s jh msg sub allowed w))
         = (mapStore w)(a := fold put (RangeOrder ex 0 (Labels pe)) (mapStore w a))"
  using assms
  by (simp add: handleProwJob_def Let_def fold_assign_store reportProwJobFailure_def
        reportProwJobTriggered_def others_reportProwJob called_others split: option.splits)

lemma handleProwJob_accepted_result:
  assumes "FromPayload ex (Data msg) = Inr pe"
    and "getProwJobSpec jh ex (ConfigAgent s) (InRepoCache s) (pe\<lparr>Name := TrimSpace ex (Name pe)\<rparr>)
         = Inr (Some spec, lbl)"
    and "clusterIsAllowed allowed (Cluster spec)"
    and "\<forall>pj. Create s pj = None"
  shows "fst (handleProwJob ex s jh msg sub allowed w) = None"
  using assms
  by (simp add: handleProwJob_def Let_def split: option.splits prod.splits)

lemma handleMessage_dispatch:
  assumes "Attributes msg prowEventType = Some eType" and "selectHandler eType = Some jh"
  shows "fst (handleMessage ex s msg sub allowed w) = fst (handleProwJob ex s jh msg sub allowed (received sub w))"
    and "mapStore (snd (handleMessage ex s msg sub allowed w))
         = mapStore (snd (handleProwJob ex s jh msg sub allowed (received sub w)))"
  using assms
  by (simp_all add: handleMessage_def extractFromAttribute_def Let_def received_def Inc_def With_def
        split: prod.splits option.splits)

lemma periodic_selected: "selectHandler periodicProwJobEvent = Some periodicJobHandler"
  by (simp add: selectHandler_def)

section \<open>The scenarios, evaluated\<close>

lemma fakeRangeOrder_ok: "rangeOrderOK (fakeExternals payloads)"
  by (simp add: rangeOrderOK_def fakeExternals_def fakeRangeOrder_def)

lemma fake_keeps_spec:
  "\<forall>labels annotations. Spec (NewProwJob (fakeExternals payloads) spec labels annotations) = spec"
  by (simp add: fakeExternals_def fakeNewProwJob_def)

lemma nightly_decodes:
  "FromPayload (fakeExternals [(''nightly'', nightlyEvent)]) (Data nightlyMessage) = Inr nightlyEvent"
  by (simp add: FromPayload_def fakeExternals_def fakeUnmarshal_def nightlyMessage_def)

lemma nightly_trim: "fakeTrimSpace '' nightly-build '' = ''nightly-build''"
  by (simp add: fakeTrimSpace_def)

lemma nightly_resolves:
  "getProwJobSpec periodicJobHandler (fakeExternals [(''nightly'', nightlyEvent)])
     (ConfigAgent (fakeSubscriber nightlyConfig None)) (InRepoCache (fakeSubscriber nightlyConfig None))
     (nightlyEvent\<lparr>Name := TrimSpace (fakeExternals [(''nightly'', nightlyEvent)]) (Name nightlyEvent)\<rparr>)
   = Inr (Some (fakeSpec nightlyJob), Some 0)"
  by (simp add: periodic_getProwJobSpec_def fakeExternals_def fakeSubscriber_def nightlyConfig_def
        nightlyEvent_def nightly_trim nightlyJob_def emptyConfig_def)

lemma nightly_message_class: "Attributes nightlyMessage prowEventType = Some periodicProwJobEvent"
  by (simp add: nightlyMessage_def)


lemma nightly_envs_distinct: "distinct (map fst (Envs nightlyEvent))"
  by (simp add: nightlyEvent_def)

lemma nightly_pod:
  "PodSpec (fakeSpec nightlyJob) = Some \<lparr>Containers =
     [\<lparr>ContainerName = ''test'', Env = [\<lparr>EnvName = ''FOO'', EnvValue = ''0''\<rparr>]\<rparr>,
      \<lparr>ContainerName = ''sidecar'', Env = []\<rparr>]\<rparr>"
  by (simp add: fakeSpec_def nightlyJob_def)

lemma nightly_entries:
  "mset (map envVar (Envs nightlyEvent))
     = {#\<lparr>EnvName = ''FOO'', EnvValue = ''1''\<rparr>, \<lparr>EnvName = ''BAR'', EnvValue = ''2''\<rparr>#}"
  by (simp add: nightlyEvent_def envVar_def)

lemma star_allows: "clusterIsAllowed [''*''] (Cluster (fakeSpec nightlyJob))"
  by simp

lemma unitTests_decodes:
  "FromPayload (fakeExternals [(''unit-tests'', unitTestsEvent)]) (Data unitTestsMessage) = Inr unitTestsEvent"
  by (simp add: FromPayload_def fakeExternals_def fakeUnmarshal_def unitTestsMessage_def)

lemma unitTests_refs: "Refs unitTestsEvent = Some unitTestsRefs"
  by (simp add: unitTestsEvent_def)

lemma unitTests_required: "requiredRefs presubmitJobHandler unitTestsRefs"
  by (simp add: requiredRefs_def unitTestsRefs_def)

lemma unitTests_required_post: "requiredRefs postsubmitJobHandler unitTestsRefs"
  by (simp add: requiredRefs_def unitTestsRefs_def)

lemma unitTests_trim: "fakeTrimSpace ''unit-tests'' = ''unit-tests''"
  by (simp add: fakeTrimSpace_def)

lemma badRefs_decodes:
  "FromPayload (fakeExternals [(''bad-refs'', badRefsEvent)]) (Data badRefsMessage) = Inr badRefsEvent"
  by (simp add: FromPayload_def fakeExternals_def fakeUnmarshal_def badRefsMessage_def)

lemma badRefs_unmet: "firstUnmet (Refs badRefsEvent) = Some FieldPulls"
  by (simp add: firstUnmet_def badRefsEvent_def)




section \<open>The cluster allow-list\<close>

text \<open>
  C1. Let the payload decode and the resolver return a spec. If the cluster of the spec
  is no entry of \<^verbatim>\<open>allowedClusters\<close> and \<^verbatim>\<open>"*"\<close> is no entry either, then
  \<open>handleProwJob\<close> returns the error that names the cluster; the job built from the
  rejected spec gets the error state and the description of that error and goes through
  the reporter (it is asked whether to report, and reports if so); these are the only
  calls after the resolver, and the job client is not called. If \<^verbatim>\<open>"*"\<close> is an entry,
  the check passes for every cluster and one job is handed to the job client.
\<close>

theorem cluster_allow_list:
  assumes "FromPayload ex (Data msg) = Inr pe"
    and "getProwJobSpec jh ex (ConfigAgent s) (InRepoCache s) (pe\<lparr>Name := TrimSpace ex (Name pe)\<rparr>)
         = Inr (Some spec, lbl)"
  shows "(Cluster spec \<notin> set allowed \<and> ''*'' \<notin> set allowed \<longrightarrow>
           fst (handleProwJob ex s jh msg sub allowed w) = Some (clusterError (Cluster spec))
         \<and> calls (snd (handleProwJob ex s jh msg sub allowed w)) =
             calls w @ [CallFromPayload (Data msg),
                        CallGetProwJobSpec jh (pe\<lparr>Name := TrimSpace ex (Name pe)\<rparr>),
                        CallShouldReport (failed (NewProwJob ex spec None (Annotations pe)) (clusterError (Cluster spec)))]
               @ (if ShouldReport s (failed (NewProwJob ex spec None (Annotations pe)) (clusterError (Cluster spec)))
                  then [CallReport (failed (NewProwJob ex spec None (Annotations pe)) (clusterError (Cluster spec)))]
                  else [])
         \<and> created (calls (snd (handleProwJob ex s jh msg sub allowed w))) = created (calls w))
       \<and> (''*'' \<in> set allowed \<longrightarrow>
           clusterIsAllowed allowed (Cluster spec)
         \<and> (\<exists>pj. created (calls (snd (handleProwJob ex s jh msg sub allowed w))) = created (calls w) @ [pj]))"
proof (intro conjI impI)
  assume no: "Cluster spec \<notin> set allowed \<and> ''*'' \<notin> set allowed"
  then have denied: "\<not> clusterIsAllowed allowed (Cluster spec)"
    by (simp add: clusterIsAllowed_iff)
  note path = handleProwJob_cluster_denied [OF assms denied, of sub w]
  show "fst (handleProwJob ex s jh msg sub allowed w) = Some (clusterError (Cluster spec))"
    by (simp add: path)
  show "calls (snd (handleProwJob ex s jh msg sub allowed w)) =
             calls w @ [CallFromPayload (Data msg),
                        CallGetProwJobSpec jh (pe\<lparr>Name := TrimSpace ex (Name pe)\<rparr>),
                        CallShouldReport (failed (NewProwJob ex spec None (Annotations pe)) (clusterError (Cluster spec)))]
               @ (if ShouldReport s (failed (NewProwJob ex spec None (Annotations pe)) (clusterError (Cluster spec)))
                  then [CallReport (failed (NewProwJob ex spec None (Annotations pe)) (clusterError (Cluster spec)))]
                  else [])"
    by (simp add: path calls_reportProwJobFailure calls_called)
  show "created (calls (snd (handleProwJob ex s jh msg sub allowed w))) = created (calls w)"
    by (simp add: path reportProwJobFailure_def created_reportProwJob calls_called created_append)
next
  assume star: "''*'' \<in> set allowed"
  then show ok: "clusterIsAllowed allowed (Cluster spec)"
    by (simp add: clusterIsAllowed_iff)
  show "\<exists>pj. created (calls (snd (handleProwJob ex s jh msg sub allowed w))) = created (calls w) @ [pj]"
    using handleProwJob_accepted [OF assms ok, of sub w] by blast
qed

theorem cluster_allow_list_witness:
  "fst (handleProwJob (fakeExternals [(''nightly'', nightlyEvent)]) (fakeSubscriber nightlyConfig None)
         periodicJobHandler nightlyMessage ''sub'' [''ci'', ''test''] nightlyWorld)
     = Some (clusterError ''build'')
   \<and> created (calls (snd (handleProwJob (fakeExternals [(''nightly'', nightlyEvent)])
         (fakeSubscriber nightlyConfig None) periodicJobHandler nightlyMessage ''sub'' [''ci'', ''test'']
         nightlyWorld))) = []
   \<and> (\<exists>pj. created (calls (snd (handleProwJob (fakeExternals [(''nightly'', nightlyEvent)])
         (fakeSubscriber nightlyConfig None) periodicJobHandler nightlyMessage ''sub'' [''ci'', ''*'']
         nightlyWorld))) = [pj])"
  using cluster_allow_list [OF nightly_decodes nightly_resolves, of "[''ci'', ''test'']" "''sub''" nightlyWorld]
    cluster_allow_list [OF nightly_decodes nightly_resolves, of "[''ci'', ''*'']" "''sub''" nightlyWorld]
  by (simp add: fakeSpec_def nightlyJob_def nightlyWorld_def world0_def)

section \<open>Validation of the refs of a presubmit event\<close>

lemma validationError_inj: "inj validationError"
proof (rule injI)
  fix x y assume "validationError x = validationError y"
  then show "x = y"
    by (cases x; cases y) (simp_all add: validationError_def)
qed

lemma presubmit_validation:
  assumes "firstUnmet (Refs pe) = Some f"
  shows "presubmit_getProwJobSpec ex cfg pc pe = Inl (validationError f)"
  using assms
  by (auto simp add: firstUnmet_def presubmit_getProwJobSpec_def validationError_def
        split: option.splits if_splits)

text \<open>
  C2. When a required field of the refs of a presubmit event is missing, the first
  missing one in the order refs, org, repo, pulls, baseSHA, baseRef decides: the
  presubmit resolver returns the validation error that names this field and no spec,
  \<open>handleProwJob\<close> returns that error, and no job is handed to the job client. The
  errors of different fields are different.
\<close>

theorem presubmit_refs_validation:
  assumes "FromPayload ex (Data msg) = Inr pe" and "firstUnmet (Refs pe) = Some f"
  shows "presubmit_getProwJobSpec ex (ConfigAgent s) (InRepoCache s) (pe\<lparr>Name := TrimSpace ex (Name pe)\<rparr>)
           = Inl (validationError f)
       \<and> fst (handleProwJob ex s presubmitJobHandler msg sub allowed w) = Some (validationError f)
       \<and> created (calls (snd (handleProwJob ex s presubmitJobHandler msg sub allowed w))) = created (calls w)
       \<and> (\<forall>g. validationError g = validationError f \<longrightarrow> g = f)"
proof -
  have r: "presubmit_getProwJobSpec ex (ConfigAgent s) (InRepoCache s) (pe\<lparr>Name := TrimSpace ex (Name pe)\<rparr>)
           = Inl (validationError f)"
    by (rule presubmit_validation) (simp add: assms(2))
  then have r': "getProwJobSpec presubmitJobHandler ex (ConfigAgent s) (InRepoCache s)
      (pe\<lparr>Name := TrimSpace ex (Name pe)\<rparr>) = Inl (validationError f)"
    by simp
  show ?thesis
    using r created_resolve_error [OF assms(1) r', of sub allowed w] validationError_inj
    by (simp add: inj_def)
qed

theorem presubmit_refs_validation_witness:
  "fst (handleProwJob (fakeExternals [(''bad-refs'', badRefsEvent)]) (fakeSubscriber emptyConfig None)
      presubmitJobHandler badRefsMessage ''sub'' [''*''] world0) = Some ''at least 1 Pulls is required''
   \<and> created (calls (snd (handleProwJob (fakeExternals [(''bad-refs'', badRefsEvent)])
      (fakeSubscriber emptyConfig None) presubmitJobHandler badRefsMessage ''sub'' [''*''] world0))) = []"
  using presubmit_refs_validation [OF badRefs_decodes badRefs_unmet,
      of "fakeSubscriber emptyConfig None" "''sub''" "[''*'']" world0]
  by (simp add: validationError_def world0_def)

section \<open>Ambiguous and missing jobs\<close>

lemma matchJobs_matching:
  "matchJobs branch name jobs found =
     (case (found, matching branch name jobs) of
        (None, []) \<Rightarrow> Inr None
      | (None, [job]) \<Rightarrow> Inr (Some job)
      | (Some f, []) \<Rightarrow> Inr (Some f)
      | _ \<Rightarrow> Inl (name @ '' matches multiple prow jobs''))"
proof (induction jobs arbitrary: found)
  case Nil
  then show ?case by (cases found) (simp_all add: matching_def)
next
  case (Cons job jobs)
  show ?case
  proof (cases "CouldRun job branch \<and> JobName job = name")
    case False
    then have "matching branch name (job # jobs) = matching branch name jobs"
      by (auto simp add: matching_def)
    with False Cons.IH [of found] show ?thesis by auto
  next
    case True
    then have m: "matching branch name (job # jobs) = job # matching branch name jobs"
      by (simp add: matching_def)
    show ?thesis
    proof (cases found)
      case None
      with True m Cons.IH [of "Some job"] show ?thesis
        by (simp split: list.splits)
    next
      case (Some f)
      with True m show ?thesis by simp
    qed
  qed
qed

lemma matchJobs_multiple:
  "2 \<le> length (matching branch name jobs) \<Longrightarrow>
     matchJobs branch name jobs None = Inl (name @ '' matches multiple prow jobs'')"
  by (auto simp add: matchJobs_matching split: list.splits)

lemma matchJobs_none:
  "matching branch name jobs = [] \<Longrightarrow> matchJobs branch name jobs None = Inr None"
  by (simp add: matchJobs_matching)

lemma presubmit_match:
  assumes "Refs pe = Some refs" and "requiredRefs presubmitJobHandler refs"
  shows "presubmit_getProwJobSpec ex cfg pc pe =
     (case matchJobs (BaseRef refs) (Name pe) (presubmitCatalog cfg pc refs) None of
        Inl err \<Rightarrow> Inl err
      | Inr None \<Rightarrow> Inl (''failed to find associated presubmit job '' @ Quote ex (Name pe))
      | Inr (Some job) \<Rightarrow> Inr (Some (PresubmitSpec ex job refs), JobLabels job))"
  using assms by (simp add: presubmit_getProwJobSpec_def requiredRefs_def)

lemma postsubmit_match:
  assumes "Refs pe = Some refs" and "requiredRefs postsubmitJobHandler refs"
  shows "postsubmit_getProwJobSpec ex cfg pc pe =
     (case matchJobs (BaseRef refs) (Name pe) (postsubmitCatalog cfg pc refs) None of
        Inl err \<Rightarrow> Inl err
      | Inr None \<Rightarrow> Inl (''failed to find associated postsubmit job '' @ Quote ex (Name pe))
      | Inr (Some job) \<Rightarrow> Inr (Some (PostsubmitSpec ex job refs), JobLabels job))"
  using assms by (simp add: postsubmit_getProwJobSpec_def requiredRefs_def)

lemma resolve_multiple:
  assumes "jh = presubmitJobHandler \<or> jh = postsubmitJobHandler"
    and "Refs pe = Some refs" and "requiredRefs jh refs"
    and "2 \<le> length (matching (BaseRef refs) (Name pe) (catalogOf jh cfg pc refs))"
  shows "getProwJobSpec jh ex cfg pc pe = Inl (Name pe @ '' matches multiple prow jobs'')"
  using assms
  by (auto simp add: catalogOf_def presubmit_match postsubmit_match matchJobs_multiple)

lemma resolve_none:
  assumes "jh = presubmitJobHandler \<or> jh = postsubmitJobHandler"
    and "Refs pe = Some refs" and "requiredRefs jh refs"
    and "matching (BaseRef refs) (Name pe) (catalogOf jh cfg pc refs) = []"
  shows "getProwJobSpec jh ex cfg pc pe = Inl (notFoundError ex jh (Name pe))"
  using assms
  by (auto simp add: catalogOf_def presubmit_match postsubmit_match matchJobs_none notFoundError_def)

text \<open>
  C3. For a presubmit or postsubmit event whose refs pass the field checks: when two or
  more entries of the list the resolver matches against have the (trimmed) name of the
  event and accept its base ref, the resolver fails with
  \<^verbatim>\<open><name> matches multiple prow jobs\<close>; when no entry does, it fails with
  \<^verbatim>\<open>failed to find associated presubmit job\<close> (or \<^verbatim>\<open>postsubmit\<close>) followed by the
  quoted name. In both cases \<open>handleProwJob\<close> returns that error and no job is handed
  to the job client.
\<close>

theorem ambiguous_or_missing_job:
  assumes "jh = presubmitJobHandler \<or> jh = postsubmitJobHandler"
    and "FromPayload ex (Data msg) = Inr pe"
    and "Refs pe = Some refs" and "requiredRefs jh refs"
  shows "(2 \<le> length (matching (BaseRef refs) (TrimSpace ex (Name pe))
                        (catalogOf jh (ConfigAgent s) (InRepoCache s) refs)) \<longrightarrow>
            getProwJobSpec jh ex (ConfigAgent s) (InRepoCache s) (pe\<lparr>Name := TrimSpace ex (Name pe)\<rparr>)
              = Inl (TrimSpace ex (Name pe) @ '' matches multiple prow jobs'')
          \<and> fst (handleProwJob ex s jh msg sub allowed w)
              = Some (TrimSpace ex (Name pe) @ '' matches multiple prow jobs'')
          \<and> created (calls (snd (handleProwJob ex s jh msg sub allowed w))) = created (calls w))
       \<and> (matching (BaseRef refs) (TrimSpace ex (Name pe))
                        (catalogOf jh (ConfigAgent s) (InRepoCache s) refs) = [] \<longrightarrow>
            getProwJobSpec jh ex (ConfigAgent s) (InRepoCache s) (pe\<lparr>Name := TrimSpace ex (Name pe)\<rparr>)
              = Inl (notFoundError ex jh (TrimSpace ex (Name pe)))
          \<and> fst (handleProwJob ex s jh msg sub allowed w)
              = Some (notFoundError ex jh (TrimSpace ex (Name pe)))
          \<and> created (calls (snd (handleProwJob ex s jh msg sub allowed w))) = created (calls w))"
proof (intro conjI impI)
  let ?pe = "pe\<lparr>Name := TrimSpace ex (Name pe)\<rparr>"
  have refs: "Refs ?pe = Some refs" by (simp add: assms(3))
  {
    assume "2 \<le> length (matching (BaseRef refs) (TrimSpace ex (Name pe))
                        (catalogOf jh (ConfigAgent s) (InRepoCache s) refs))"
    then have r: "getProwJobSpec jh ex (ConfigAgent s) (InRepoCache s) ?pe
              = Inl (TrimSpace ex (Name pe) @ '' matches multiple prow jobs'')"
      using resolve_multiple [OF assms(1) refs assms(4), of "ConfigAgent s" "InRepoCache s" ex] by simp
    then show "getProwJobSpec jh ex (ConfigAgent s) (InRepoCache s) ?pe
              = Inl (TrimSpace ex (Name pe) @ '' matches multiple prow jobs'')" .
    show "fst (handleProwJob ex s jh msg sub allowed w)
              = Some (TrimSpace ex (Name pe) @ '' matches multiple prow jobs'')"
      by (rule created_resolve_error(1) [OF assms(2) r])
    show "created (calls (snd (handleProwJob ex s jh msg sub allowed w))) = created (calls w)"
      by (rule created_resolve_error(2) [OF assms(2) r])
  }
  {
    assume "matching (BaseRef refs) (TrimSpace ex (Name pe))
                        (catalogOf jh (ConfigAgent s) (InRepoCache s) refs) = []"
    then have r: "getProwJobSpec jh ex (ConfigAgent s) (InRepoCache s) ?pe
              = Inl (notFoundError ex jh (TrimSpace ex (Name pe)))"
      using resolve_none [OF assms(1) refs assms(4), of "ConfigAgent s" "InRepoCache s" ex] by simp
    then show "getProwJobSpec jh ex (ConfigAgent s) (InRepoCache s) ?pe
              = Inl (notFoundError ex jh (TrimSpace ex (Name pe)))" .
    show "fst (handleProwJob ex s jh msg sub allowed w)
              = Some (notFoundError ex jh (TrimSpace ex (Name pe)))"
      by (rule created_resolve_error(1) [OF assms(2) r])
    show "created (calls (snd (handleProwJob ex s jh msg sub allowed w))) = created (calls w)"
      by (rule created_resolve_error(2) [OF assms(2) r])
  }
qed

theorem ambiguous_or_missing_job_witness:
  "fst (handleProwJob (fakeExternals [(''unit-tests'', unitTestsEvent)])
          (fakeSubscriber (presubmitConfig [unitTestsJob ''ci'', unitTestsJob ''build'']) None)
          presubmitJobHandler unitTestsMessage ''sub'' [''*''] world0)
     = Some ''unit-tests matches multiple prow jobs''
   \<and> created (calls (snd (handleProwJob (fakeExternals [(''unit-tests'', unitTestsEvent)])
          (fakeSubscriber (presubmitConfig [unitTestsJob ''ci'', unitTestsJob ''build'']) None)
          presubmitJobHandler unitTestsMessage ''sub'' [''*''] world0))) = []
   \<and> fst (handleProwJob (fakeExternals [(''unit-tests'', unitTestsEvent)])
          (fakeSubscriber (presubmitConfig []) None)
          presubmitJobHandler unitTestsMessage ''sub'' [''*''] world0)
     = Some (''failed to find associated presubmit job '' @ fakeQuote ''unit-tests'')
   \<and> created (calls (snd (handleProwJob (fakeExternals [(''unit-tests'', unitTestsEvent)])
          (fakeSubscriber (presubmitConfig []) None)
          presubmitJobHandler unitTestsMessage ''sub'' [''*''] world0))) = []
   \<and> fst (handleProwJob (fakeExternals [(''unit-tests'', unitTestsEvent)])
          (fakeSubscriber (postsubmitConfig [unitTestsJob ''ci'', unitTestsJob ''build'']) None)
          postsubmitJobHandler unitTestsMessage ''sub'' [''*''] world0)
     = Some ''unit-tests matches multiple prow jobs''
   \<and> fst (handleProwJob (fakeExternals [(''unit-tests'', unitTestsEvent)])
          (fakeSubscriber (postsubmitConfig []) None)
          postsubmitJobHandler unitTestsMessage ''sub'' [''*''] world0)
     = Some (''failed to find associated postsubmit job '' @ fakeQuote ''unit-tests'')"
  using ambiguous_or_missing_job [OF _ unitTests_decodes unitTests_refs unitTests_required,
      of "fakeSubscriber (presubmitConfig [unitTestsJob ''ci'', unitTestsJob ''build'']) None"
         "''sub''" "[''*'']" world0]
    ambiguous_or_missing_job [OF _ unitTests_decodes unitTests_refs unitTests_required,
      of "fakeSubscriber (presubmitConfig []) None" "''sub''" "[''*'']" world0]
    ambiguous_or_missing_job [OF _ unitTests_decodes unitTests_refs unitTests_required_post,
      of "fakeSubscriber (postsubmitConfig [unitTestsJob ''ci'', unitTestsJob ''build'']) None"
         "''sub''" "[''*'']" world0]
    ambiguous_or_missing_job [OF _ unitTests_decodes unitTests_refs unitTests_required_post,
      of "fakeSubscriber (postsubmitConfig []) None" "''sub''" "[''*'']" world0]
  by (simp add: catalogOf_def presubmitCatalog_def postsubmitCatalog_def fakeSubscriber_def
        presubmitConfig_def postsubmitConfig_def emptyConfig_def matching_def unitTestsRefs_def
        unitTestsJob_def fakeExternals_def unitTestsEvent_def unitTests_trim notFoundError_def
        world0_def)

section \<open>The labels of the submitted job\<close>








section \<open>The error counter\<close>

text \<open>No path of the handler changes a value of the error counter.\<close>

lemma handleProwJob_ErrorCounter:
  "ErrorCounter (snd (handleProwJob ex s jh msg sub allowed w)) = ErrorCounter w"
  by (simp add: handleProwJob_def Let_def makeMap_def reportProwJobFailure_def
        reportProwJobTriggered_def others_reportProwJob called_others fold_assign_counters
        split: sum.splits option.splits prod.splits)

lemma handleMessage_ErrorCounter:
  "ErrorCounter (snd (handleMessage ex s msg sub allowed w)) = ErrorCounter w"
proof -
  have "\<And>jh. ErrorCounter (snd (handleProwJob ex s jh msg sub allowed (received sub w))) = ErrorCounter w"
    by (simp add: handleProwJob_ErrorCounter received_def)
  then have "\<And>jh r w'. handleProwJob ex s jh msg sub allowed (received sub w) = (r, w')
      \<Longrightarrow> ErrorCounter w' = ErrorCounter w"
    by (metis snd_conv)
  then show ?thesis
    by (auto simp add: handleMessage_def Let_def received_def Inc_def With_def
          split: sum.splits option.splits prod.splits)
qed

text \<open>
  C5. A message without the event-class attribute ends in the missing-attribute error.
  The source selects the child of the error counter (\<^verbatim>\<open>ErrorCounter.With(...)\<close>) and
  does not call \<^verbatim>\<open>Inc\<close> on it, unlike the line for the received-message counter: after
  the handling the error counter of the subscription is still 0, while the
  received-message counter is 1.
\<close>

theorem error_counter_not_incremented:
  "fst (handleMessage (fakeExternals []) (fakeSubscriber emptyConfig None)
     \<lparr>Attributes = Map.empty, Data = ''{}'', ID = ''1''\<rparr> ''sub'' [''*''] world0)
     = Some (missingAttributeError (fakeExternals []))
   \<and> ErrorCounter (snd (handleMessage (fakeExternals []) (fakeSubscriber emptyConfig None)
     \<lparr>Attributes = Map.empty, Data = ''{}'', ID = ''1''\<rparr> ''sub'' [''*''] world0)) ''sub'' = 0
   \<and> ErrorCounter world0 ''sub'' = 0
   \<and> MessageCounter (snd (handleMessage (fakeExternals []) (fakeSubscriber emptyConfig None)
     \<lparr>Attributes = Map.empty, Data = ''{}'', ID = ''1''\<rparr> ''sub'' [''*''] world0)) ''sub'' = 1"
  by (simp add: handleMessage_def extractFromAttribute_def Let_def missingAttributeError_def
        world0_def Inc_def With_def)

section \<open>The labels of the catalog\<close>

text \<open>
  C6. The periodic resolver returns the labels of the job definition as they are, a
  reference to the map of the catalog, and the handler writes the labels of the event
  into that map. After the \<^verbatim>\<open>nightly-build\<close> event is handled (with success), the map
  object that the job definition of the catalog refers to no longer holds
  \<^verbatim>\<open>team: ci\<close>: it holds the labels of the event.
\<close>

theorem catalog_labels_mutated:
  "fst (handleMessage (fakeExternals [(''nightly'', nightlyEvent)]) (fakeSubscriber nightlyConfig None)
          nightlyMessage ''sub'' [''*''] nightlyWorld) = None
   \<and> map JobLabels (AllPeriodics nightlyConfig) = [Some 0]
   \<and> mapStore nightlyWorld 0 = [(''team'', ''ci'')]
   \<and> mapStore (snd (handleMessage (fakeExternals [(''nightly'', nightlyEvent)])
          (fakeSubscriber nightlyConfig None) nightlyMessage ''sub'' [''*''] nightlyWorld)) 0
       = [(''team'', ''infra''), (''tier'', ''gold'')]"
proof (intro conjI)
  show "fst (handleMessage (fakeExternals [(''nightly'', nightlyEvent)]) (fakeSubscriber nightlyConfig None)
          nightlyMessage ''sub'' [''*''] nightlyWorld) = None"
    unfolding handleMessage_dispatch(1) [OF nightly_message_class periodic_selected]
    by (rule handleProwJob_accepted_result [OF nightly_decodes nightly_resolves star_allows])
       (simp add: fakeSubscriber_def)
  show "map JobLabels (AllPeriodics nightlyConfig) = [Some 0]"
    by (simp add: nightlyConfig_def nightlyJob_def)
  show "mapStore nightlyWorld 0 = [(''team'', ''ci'')]"
    by (simp add: nightlyWorld_def)
  show "mapStore (snd (handleMessage (fakeExternals [(''nightly'', nightlyEvent)])
          (fakeSubscriber nightlyConfig None) nightlyMessage ''sub'' [''*''] nightlyWorld)) 0
       = [(''team'', ''infra''), (''tier'', ''gold'')]"
    unfolding handleMessage_dispatch(2) [OF nightly_message_class periodic_selected]
      handleProwJob_accepted_store [OF nightly_decodes nightly_resolves star_allows]
    by (simp add: received_def nightlyWorld_def fakeExternals_def fakeRangeOrder_def
          nightlyEvent_def put_def)
qed

section \<open>The in-repo configuration\<close>

text \<open>
  C7. With an in-repo cache configured, a presubmit resolution whose lookup in the
  cache succeeds matches against the list of the cache alone: the result is that of a
  resolution without cache whose static list is the list of the cache. When the lookup
  fails, the list is the static one and the result is that of the resolution without
  cache, whatever the error of the lookup was.
\<close>

theorem dynamic_catalog_replaces_or_falls_back:
  assumes "Refs pe = Some refs"
  shows "(\<forall>dyn. GetPresubmits c (Org refs @ ''/'' @ Repo refs) (BaseSHA refs) (map SHA (Pulls refs)) = Inr dyn \<longrightarrow>
            presubmitCatalog cfg (Some c) refs = dyn
          \<and> presubmit_getProwJobSpec ex cfg (Some c) pe
              = presubmit_getProwJobSpec ex (cfg\<lparr>GetPresubmitsStatic := (\<lambda>orgRepo. dyn)\<rparr>) None pe)
       \<and> (\<forall>err. GetPresubmits c (Org refs @ ''/'' @ Repo refs) (BaseSHA refs) (map SHA (Pulls refs)) = Inl err \<longrightarrow>
            presubmitCatalog cfg (Some c) refs = GetPresubmitsStatic cfg (Org refs @ ''/'' @ Repo refs)
          \<and> presubmit_getProwJobSpec ex cfg (Some c) pe = presubmit_getProwJobSpec ex cfg None pe)"
  using assms by (auto simp add: presubmit_getProwJobSpec_def presubmitCatalog_def Let_def)

theorem dynamic_catalog_replaces_or_falls_back_witness:
  "presubmitCatalog (presubmitConfig [unitTestsJob ''ci'']) (Some (fakeCache (Inr [unitTestsJob ''build''])))
      unitTestsRefs = [unitTestsJob ''build'']
   \<and> presubmit_getProwJobSpec (fakeExternals []) (presubmitConfig [unitTestsJob ''ci''])
        (Some (fakeCache (Inr [unitTestsJob ''build'']))) unitTestsEvent
      = Inr (Some \<lparr>Cluster = ''build'', PodSpec = None\<rparr>, None)
   \<and> presubmitCatalog (presubmitConfig [unitTestsJob ''ci'']) (Some (fakeCache (Inl ''clone failed'')))
      unitTestsRefs = [unitTestsJob ''ci'']
   \<and> presubmit_getProwJobSpec (fakeExternals []) (presubmitConfig [unitTestsJob ''ci''])
        (Some (fakeCache (Inl ''clone failed''))) unitTestsEvent
      = Inr (Some \<lparr>Cluster = ''ci'', PodSpec = None\<rparr>, None)"
  using dynamic_catalog_replaces_or_falls_back [OF unitTests_refs,
      of "fakeCache (Inr [unitTestsJob ''build''])" "presubmitConfig [unitTestsJob ''ci'']" "fakeExternals []"]
    dynamic_catalog_replaces_or_falls_back [OF unitTests_refs,
      of "fakeCache (Inl ''clone failed'')" "presubmitConfig [unitTestsJob ''ci'']" "fakeExternals []"]
  by (simp add: fakeCache_def presubmitConfig_def emptyConfig_def unitTestsRefs_def
        presubmit_getProwJobSpec_def presubmitCatalog_def unitTestsEvent_def unitTestsJob_def
        fakeExternals_def fakeSpec_def)

section \<open>The environment of the containers\<close>

lemma fold_appendEnv: "fold appendEnv kvs env = env @ map envVar kvs"
  by (induction kvs arbitrary: env) (simp_all add: appendEnv_def envVar_def)

lemma length_addEnvs: "length (addEnvs ex envs i cs) = length cs"
  by (induction cs arbitrary: i) simp_all

lemma nth_addEnvs:
  "j < length cs \<Longrightarrow>
     addEnvs ex envs i cs ! j = (cs ! j)\<lparr>Env := Env (cs ! j) @ map envVar (RangeOrder ex (Suc (i + j)) envs)\<rparr>"
proof (induction cs arbitrary: i j)
  case Nil
  then show ?case by simp
next
  case (Cons c cs)
  show ?case
  proof (cases j)
    case 0
    then show ?thesis by (simp add: fold_appendEnv)
  next
    case (Suc k)
    with Cons.prems have "k < length cs" by simp
    from Cons.IH [OF this, of "Suc i"] Suc show ?thesis by simp
  qed
qed

lemma addEnvs_no_envs:
  assumes "rangeOrderOK ex"
  shows "addEnvs ex [] i cs = cs"
proof -
  have "\<And>n. RangeOrder ex n [] = []"
    using assms by (metis rangeOrderOK_def mset_zero_iff)
  then show ?thesis
    by (induction cs arbitrary: i) simp_all
qed

lemma addEnvironments_no_envs:
  assumes "rangeOrderOK ex"
  shows "addEnvironments ex [] pj = pj"
  by (simp add: addEnvironments_def addEnvs_no_envs [OF assms] split: option.splits)

lemma Spec_addEnvironments:
  "Spec (addEnvironments ex envs pj) =
     (case PodSpec (Spec pj) of
        None \<Rightarrow> Spec pj
      | Some pod \<Rightarrow> (Spec pj)\<lparr>PodSpec := Some \<lparr>Containers = addEnvs ex envs 0 (Containers pod)\<rparr>\<rparr>)"
  by (cases "PodSpec (Spec pj)") (simp_all add: addEnvironments_def)

lemma added_permutation:
  assumes "rangeOrderOK ex"
  shows "mset (map envVar (RangeOrder ex n envs)) = mset (map envVar envs)"
  using assms by (simp add: rangeOrderOK_def)

lemma added_distinct:
  assumes "rangeOrderOK ex" and "distinct (map fst envs)"
  shows "distinct (map EnvName (map envVar (RangeOrder ex n envs)))"
proof -
  have "map EnvName (map envVar (RangeOrder ex n envs)) = map fst (RangeOrder ex n envs)"
    by (simp add: envVar_def)
  moreover have "mset (map fst (RangeOrder ex n envs)) = mset (map fst envs)"
    using assms(1) by (simp add: rangeOrderOK_def)
  ultimately show ?thesis
    using assms(2) by (metis mset_eq_imp_distinct_iff)
qed

text \<open>
  C9. Let the payload decode, the resolver return a spec, the cluster be allowed, and
  the constructor keep the spec it is given. Then one job is handed to the job client.
  Without a pod template its spec is the resolved one. With a pod template its spec is
  the resolved one with new containers, as many as before, and container \<open>i\<close> is the
  old container \<open>i\<close> whose environment list is the old list followed by a list of
  added entries; the added entries are, as a multiset, the entries of the event's
  \<^verbatim>\<open>Envs\<close> (each variable once, the same entries for every container, in an order
  that may differ), whatever names the old list holds. When the event has no envs the
  spec is the resolved one.
\<close>

theorem envs_appended:
  assumes "rangeOrderOK ex" and "distinct (map fst (Envs pe))"
    and "FromPayload ex (Data msg) = Inr pe"
    and "getProwJobSpec jh ex (ConfigAgent s) (InRepoCache s) (pe\<lparr>Name := TrimSpace ex (Name pe)\<rparr>)
         = Inr (Some spec, lbl)"
    and "clusterIsAllowed allowed (Cluster spec)"
    and "\<forall>labels annotations. Spec (NewProwJob ex spec labels annotations) = spec"
  shows "\<exists>pj. created (calls (snd (handleProwJob ex s jh msg sub allowed w))) = created (calls w) @ [pj]
     \<and> (case PodSpec spec of
          None \<Rightarrow> Spec pj = spec
        | Some pod \<Rightarrow>
            (\<exists>cs. Spec pj = spec\<lparr>PodSpec := Some \<lparr>Containers = cs\<rparr>\<rparr>
               \<and> length cs = length (Containers pod)
               \<and> (\<forall>i<length cs. \<exists>added.
                     cs ! i = (Containers pod ! i)\<lparr>Env := Env (Containers pod ! i) @ added\<rparr>
                   \<and> mset added = mset (map envVar (Envs pe))
                   \<and> distinct (map EnvName added))))
     \<and> (Envs pe = [] \<longrightarrow> Spec pj = spec)"
proof (intro exI conjI)
  let ?new = "NewProwJob ex spec (Some (fold put (RangeOrder ex 0 (Labels pe)) (baseLabels lbl w)))
                (Annotations pe)"
  let ?pj = "addEnvironments ex (Envs pe) ?new"
  have keep: "Spec ?new = spec"
    using assms(6) by simp
  show "created (calls (snd (handleProwJob ex s jh msg sub allowed w))) = created (calls w) @ [?pj]"
    by (rule handleProwJob_accepted [OF assms(3,4,5)])
  show "case PodSpec spec of
          None \<Rightarrow> Spec ?pj = spec
        | Some pod \<Rightarrow>
            (\<exists>cs. Spec ?pj = spec\<lparr>PodSpec := Some \<lparr>Containers = cs\<rparr>\<rparr>
               \<and> length cs = length (Containers pod)
               \<and> (\<forall>i<length cs. \<exists>added.
                     cs ! i = (Containers pod ! i)\<lparr>Env := Env (Containers pod ! i) @ added\<rparr>
                   \<and> mset added = mset (map envVar (Envs pe))
                   \<and> distinct (map EnvName added)))"
  proof (cases "PodSpec spec")
    case None
    then show ?thesis by (simp add: Spec_addEnvironments keep)
  next
    case (Some pod)
    have "\<forall>i<length (addEnvs ex (Envs pe) 0 (Containers pod)). \<exists>added.
            addEnvs ex (Envs pe) 0 (Containers pod) ! i
              = (Containers pod ! i)\<lparr>Env := Env (Containers pod ! i) @ added\<rparr>
          \<and> mset added = mset (map envVar (Envs pe))
          \<and> distinct (map EnvName added)"
    proof (intro allI impI)
      fix i assume "i < length (addEnvs ex (Envs pe) 0 (Containers pod))"
      then have i: "i < length (Containers pod)" by (simp add: length_addEnvs)
      show "\<exists>added. addEnvs ex (Envs pe) 0 (Containers pod) ! i
              = (Containers pod ! i)\<lparr>Env := Env (Containers pod ! i) @ added\<rparr>
          \<and> mset added = mset (map envVar (Envs pe))
          \<and> distinct (map EnvName added)"
        using nth_addEnvs [OF i, of ex "Envs pe" 0] added_permutation [OF assms(1), of "Suc i" "Envs pe"]
          added_distinct [OF assms(1,2), of "Suc i"]
        by (intro exI [of _ "map envVar (RangeOrder ex (Suc i) (Envs pe))"]) simp
    qed
    with Some show ?thesis
      by (simp add: Spec_addEnvironments keep)
         (rule exI [of _ "addEnvs ex (Envs pe) 0 (Containers pod)"], simp add: length_addEnvs)
  qed
  show "Envs pe = [] \<longrightarrow> Spec ?pj = spec"
    by (simp add: addEnvironments_no_envs [OF assms(1)] keep)
qed

theorem envs_appended_witness:
  "\<exists>pj cs.
     created (calls (snd (handleProwJob (fakeExternals [(''nightly'', nightlyEvent)])
        (fakeSubscriber nightlyConfig None) periodicJobHandler nightlyMessage ''sub'' [''*'']
        nightlyWorld))) = [pj]
     \<and> Spec pj = \<lparr>Cluster = ''build'', PodSpec = Some \<lparr>Containers = cs\<rparr>\<rparr>
     \<and> length cs = 2
     \<and> (\<exists>added. cs ! 0 = \<lparr>ContainerName = ''test'', Env = \<lparr>EnvName = ''FOO'', EnvValue = ''0''\<rparr> # added\<rparr>
           \<and> mset added = {#\<lparr>EnvName = ''FOO'', EnvValue = ''1''\<rparr>, \<lparr>EnvName = ''BAR'', EnvValue = ''2''\<rparr>#})
     \<and> (\<exists>added. cs ! 1 = \<lparr>ContainerName = ''sidecar'', Env = added\<rparr>
           \<and> mset added = {#\<lparr>EnvName = ''FOO'', EnvValue = ''1''\<rparr>, \<lparr>EnvName = ''BAR'', EnvValue = ''2''\<rparr>#})"
proof -
  from envs_appended [OF fakeRangeOrder_ok nightly_envs_distinct nightly_decodes nightly_resolves
        star_allows fake_keeps_spec, of "''sub''" nightlyWorld]
  obtain pj cs where
    sent: "created (calls (snd (handleProwJob (fakeExternals [(''nightly'', nightlyEvent)])
        (fakeSubscriber nightlyConfig None) periodicJobHandler nightlyMessage ''sub'' [''*'']
        nightlyWorld))) = created (calls nightlyWorld) @ [pj]"
    and shape: "Spec pj = (fakeSpec nightlyJob)\<lparr>PodSpec := Some \<lparr>Containers = cs\<rparr>\<rparr>"
    and len: "length cs = 2"
    and each: "\<forall>i<length cs. \<exists>added.
       cs ! i = ([\<lparr>ContainerName = ''test'', Env = [\<lparr>EnvName = ''FOO'', EnvValue = ''0''\<rparr>]\<rparr>,
                  \<lparr>ContainerName = ''sidecar'', Env = []\<rparr>] ! i)
                \<lparr>Env := Env ([\<lparr>ContainerName = ''test'', Env = [\<lparr>EnvName = ''FOO'', EnvValue = ''0''\<rparr>]\<rparr>,
                  \<lparr>ContainerName = ''sidecar'', Env = []\<rparr>] ! i) @ added\<rparr>
       \<and> mset added = mset (map envVar (Envs nightlyEvent))
       \<and> distinct (map EnvName added)"
    by (auto simp add: nightly_pod)
  have "created (calls (snd (handleProwJob (fakeExternals [(''nightly'', nightlyEvent)])
        (fakeSubscriber nightlyConfig None) periodicJobHandler nightlyMessage ''sub'' [''*'']
        nightlyWorld))) = [pj]"
    using sent by (simp add: nightlyWorld_def world0_def)
  moreover have "Spec pj = \<lparr>Cluster = ''build'', PodSpec = Some \<lparr>Containers = cs\<rparr>\<rparr>"
    using shape by (simp add: fakeSpec_def nightlyJob_def)
  moreover from each [rule_format, of 0] len have "\<exists>added.
       cs ! 0 = \<lparr>ContainerName = ''test'', Env = \<lparr>EnvName = ''FOO'', EnvValue = ''0''\<rparr> # added\<rparr>
       \<and> mset added = {#\<lparr>EnvName = ''FOO'', EnvValue = ''1''\<rparr>, \<lparr>EnvName = ''BAR'', EnvValue = ''2''\<rparr>#}"
    by (auto simp add: nightly_entries [simplified])
  moreover from each [rule_format, of 1] len have "\<exists>added.
       cs ! 1 = \<lparr>ContainerName = ''sidecar'', Env = added\<rparr>
       \<and> mset added = {#\<lparr>EnvName = ''FOO'', EnvValue = ''1''\<rparr>, \<lparr>EnvName = ''BAR'', EnvValue = ''2''\<rparr>#}"
    by (auto simp add: nightly_entries [simplified])
  ultimately show ?thesis using len by blast
qed

section \<open>The event-class attribute\<close>

text \<open>
  C10. The missing-attribute error belongs to the envelope that has no event-class key
  at all. When the key is there with a value that is none of the three classes (the empty
  string included), \<open>handleMessage\<close> returns the unsupported-event-type error, which is
  a different message. In both cases the world is the one before the call with the
  received-message counter raised by one: no call was made, so the payload was not
  decoded and no resolver ran.
\<close>

theorem missing_attribute_only_when_absent:
  "(Attributes msg prowEventType = None \<longrightarrow>
      handleMessage ex s msg sub allowed w = (Some (missingAttributeError ex), received sub w))
   \<and> (\<forall>v. Attributes msg prowEventType = Some v \<and> v \<noteq> periodicProwJobEvent
          \<and> v \<noteq> presubmitProwJobEvent \<and> v \<noteq> postsubmitProwJobEvent \<longrightarrow>
        handleMessage ex s msg sub allowed w = (Some (''unsupported event type: '' @ v), received sub w)
        \<and> ''unsupported event type: '' @ v \<noteq> missingAttributeError ex)
   \<and> calls (received sub w) = calls w"
  by (simp add: handleMessage_def extractFromAttribute_def selectHandler_def Let_def
        missingAttributeError_def received_def Inc_def With_def)

theorem missing_attribute_only_when_absent_witness:
  "handleMessage (fakeExternals []) (fakeSubscriber emptyConfig None)
     \<lparr>Attributes = Map.empty, Data = ''{}'', ID = ''1''\<rparr> ''sub'' [''*''] world0
     = (Some (missingAttributeError (fakeExternals [])), received ''sub'' world0)
   \<and> handleMessage (fakeExternals []) (fakeSubscriber emptyConfig None)
     \<lparr>Attributes = [prowEventType \<mapsto> ''''], Data = ''{}'', ID = ''2''\<rparr> ''sub'' [''*''] world0
     = (Some ''unsupported event type: '', received ''sub'' world0)
   \<and> calls (received ''sub'' world0) = []"
  using missing_attribute_only_when_absent
      [of "\<lparr>Attributes = Map.empty, Data = ''{}'', ID = ''1''\<rparr>" "fakeExternals []"
          "fakeSubscriber emptyConfig None" "''sub''" "[''*'']" world0]
    missing_attribute_only_when_absent
      [of "\<lparr>Attributes = [prowEventType \<mapsto> ''''], Data = ''{}'', ID = ''2''\<rparr>" "fakeExternals []"
          "fakeSubscriber emptyConfig None" "''sub''" "[''*'']" world0]
  by (simp add: prowEventType_def periodicProwJobEvent_def presubmitProwJobEvent_def
        postsubmitProwJobEvent_def world0_def)

end
